theory Spec2Isabelle
  imports Complex_Main "HOL-Library.AList"
begin

section \<open>JavaScript values used by both components\<close>

text \<open>
  The two components are the consensus engine (class \<open>ConsensusEngine\<close>) and the workspace
  store (class \<open>MultiChainWorkspaceManager\<close>). Both are TypeScript that runs as JavaScript,
  so three features of the language appear in the model.

  \<^item> Numbers. A score is a JavaScript number. Arithmetic on an \<open>undefined\<close> operand
    gives \<open>NaN\<close>, every comparison with \<open>NaN\<close> is false, and \<open>Math.min\<close> returns \<open>NaN\<close>
    as soon as one argument is \<open>NaN\<close>. Finite numbers are modelled by rationals: the decimal
    literals of the source (\<open>0.40\<close>, \<open>0.30\<close>, ...) are taken exactly, the rounding of IEEE
    doubles is not modelled.
  \<^item> Plain objects used as dictionaries. An object is an association list of its own
    properties in insertion order (keys that are canonical array indices, which
    JavaScript enumerates first, are not considered). A bracket read \<open>obj[key]\<close> first
    looks at the own properties and then at \<open>Object.prototype\<close>, whose members are all
    truthy.
  \<^item> An assignment \<open>obj[key] = v\<close> creates or overwrites an own property, except for the
    key \<open>__proto__\<close> on an object without such an own property: there the assignment
    calls the inherited setter and no own property appears. A property written in an
    object literal, by a computed key or by a spread, is always an own property.
\<close>

datatype jsnum = Num rat | NaN

fun js_add :: "jsnum \<Rightarrow> jsnum \<Rightarrow> jsnum" where
  "js_add (Num a) (Num b) = Num (a + b)"
| "js_add _ _ = NaN"

fun js_mul :: "jsnum \<Rightarrow> jsnum \<Rightarrow> jsnum" where
  "js_mul (Num a) (Num b) = Num (a * b)"
| "js_mul _ _ = NaN"

fun js_lt :: "jsnum \<Rightarrow> jsnum \<Rightarrow> bool" where
  "js_lt (Num a) (Num b) = (a < b)"
| "js_lt _ _ = False"

fun js_min :: "jsnum \<Rightarrow> jsnum \<Rightarrow> jsnum" where
  "js_min (Num a) (Num b) = Num (min a b)"
| "js_min _ _ = NaN"

definition objectPrototypeMembers :: "string list" where
  "objectPrototypeMembers =
     [''constructor'', ''__defineGetter__'', ''__defineSetter__'', ''hasOwnProperty'',
      ''__lookupGetter__'', ''__lookupSetter__'', ''isPrototypeOf'', ''propertyIsEnumerable'',
      ''toString'', ''valueOf'', ''__proto__'', ''toLocaleString'']"

datatype 'a js_prop = Own 'a | Inherited | Undefined

definition js_get :: "(string \<times> 'a) list \<Rightarrow> string \<Rightarrow> 'a js_prop" where
  "js_get obj k =
     (case map_of obj k of
        Some v \<Rightarrow> Own v
      | None \<Rightarrow> if k \<in> set objectPrototypeMembers then Inherited else Undefined)"

definition js_set :: "(string \<times> 'a) list \<Rightarrow> string \<Rightarrow> 'a \<Rightarrow> (string \<times> 'a) list" where
  "js_set obj k v =
     (if k = ''__proto__'' \<and> map_of obj k = None then obj else AList.update k v obj)"

text \<open>\<open>String.prototype.includes\<close>: the needle occurs as a contiguous substring.\<close>

fun str_includes :: "string \<Rightarrow> string \<Rightarrow> bool" where
  "str_includes [] needle = (needle = [])"
| "str_includes (c # cs) needle =
     (take (length needle) (c # cs) = needle \<or> str_includes cs needle)"

text \<open>\<open>Array.prototype.join\<close> on strings.\<close>

fun join :: "string \<Rightarrow> string list \<Rightarrow> string" where
  "join sep [] = []"
| "join sep [x] = x"
| "join sep (x # y # ys) = x @ sep @ join sep (y # ys)"


section \<open>Consensus engine: data\<close>

datatype severity = Critical | High | Medium | Low

datatype confidence = ConfHigh | ConfMedium | ConfLow

record location =
  fileName :: string
  lineStart :: int
  lineEnd :: int

text \<open>
  Interface \<open>Vulnerability\<close>. Field \<open>id\<close> is called \<open>vuln_id\<close> here. Field \<open>tools\<close> is an
  object whose keys are tool names. Field \<open>confidence\<close> is declared as one of the three
  tiers, but \<open>calculateConsensus\<close> can store \<open>undefined\<close> in it (see there), hence the
  option: \<open>None\<close> is \<open>undefined\<close>. Field \<open>vuln_tool\<close> is the property \<open>tool\<close> of a
  finding: the interface does not declare it, but the analyzer wrappers of the repository
  put it on the findings they produce (\<open>tool: 'Mythril'\<close>, \<open>tool: 'Echidna'\<close>), every
  object spread of the engine keeps it, and \<open>combineResults\<close> reads it. \<open>None\<close> is a
  finding without that property.
\<close>

record vulnerability =
  vuln_id :: string
  title :: string
  severity :: severity
  description :: string
  location :: location
  tools :: "(string \<times> bool) list"
  confidence :: "confidence option"
  confidenceScore :: jsnum
  recommendation :: string
  vuln_tool :: "string option"

text \<open>Interface \<open>ToolResult\<close>: the findings of one source.\<close>

record tool_result =
  tool :: string
  tr_vulnerabilities :: "vulnerability list"
  tr_confidence :: jsnum

text \<open>The \<open>consensus\<close> member of interface \<open>ConsensusResult\<close>.\<close>

record consensus_stats =
  total :: nat
  agreed :: nat
  conflicts :: nat
  overrides :: nat

record consensus_result =
  cr_vulnerabilities :: "vulnerability list"
  consensus :: consensus_stats
  cr_toolWeights :: "(string \<times> rat) list"

text \<open>The object returned by \<open>calculateConsensus\<close>; \<open>ci_finding\<close> is \<open>group[0]\<close>, which
  is \<open>undefined\<close> (\<open>None\<close>) for an empty group.\<close>

record consensus_info =
  ci_agreed :: bool
  ci_conflict :: bool
  ci_finding :: "vulnerability option"
  ci_findings :: "vulnerability list"

datatype engine_error =
    TypeError           \<comment> \<open>reading property \<open>tool\<close> of \<open>undefined\<close>\<close>
  | UndefinedFinding    \<comment> \<open>\<open>undefined\<close> would be pushed; not a \<open>Vulnerability\<close>\<close>


section \<open>Consensus engine: operations\<close>

text \<open>The table set up by the constructor, in the order of the object literal.\<close>

definition toolWeights :: "(string \<times> rat) list" where
  "toolWeights =
     [(''slither'', 40 / 100), (''mythril'', 30 / 100), (''echidna'', 20 / 100),
      (''medusa'', 10 / 100), (''ai'', 50 / 100)]"

text \<open>
  \<open>this.toolWeights[tool]\<close> as an operand of \<open>+\<close> or \<open>*\<close>: a missing entry is
  \<open>undefined\<close> and makes the arithmetic \<open>NaN\<close>; the source has no default weight.
  In the engine the keys of \<open>tools\<close> are names of analyzers (the interface declares
  \<open>slither\<close>, \<open>mythril\<close>, \<open>echidna\<close> and \<open>medusa\<close>); a tool named like a member of
  \<open>Object.prototype\<close> is not considered in \<open>weightOf\<close> and \<open>countTool\<close>.
\<close>

definition weightOf :: "string \<Rightarrow> jsnum" where
  "weightOf t = (case map_of toolWeights t of Some w \<Rightarrow> Num w | None \<Rightarrow> NaN)"

text \<open>
  \<open>finding.tool\<close> as the property key in \<open>this.toolWeights[finding.tool]\<close>: the name the
  finding carries in its property \<open>tool\<close>; for a finding without that property the read
  gives \<open>undefined\<close>, which as a property key is the string \<open>undefined\<close>. It is the
  finding's own property, not the \<open>tool\<close> of the \<open>ToolResult\<close> that reported it.
\<close>

definition finding_tool :: "vulnerability \<Rightarrow> string" where
  "finding_tool finding = (case vuln_tool finding of None \<Rightarrow> ''undefined'' | Some t \<Rightarrow> t)"

text \<open>
  The grouping key is the template string \<open>file:lineStart-severity\<close>. The severity
  contains no \<open>-\<close> and the printed number contains no \<open>:\<close>, so the string determines its
  three components and the key is modelled by the triple.
\<close>

type_synonym group_key = "string \<times> int \<times> severity"

definition groupKey :: "vulnerability \<Rightarrow> group_key" where
  "groupKey vuln = (fileName (location vuln), lineStart (location vuln), severity vuln)"

text \<open>One iteration of the inner loop of \<open>groupFindings\<close> on the \<open>Map\<close> of groups
  (a \<open>Map\<close> keeps its keys in order of first insertion).\<close>

definition groups_push ::
  "(group_key \<times> vulnerability list) list \<Rightarrow> string \<Rightarrow> vulnerability
     \<Rightarrow> (group_key \<times> vulnerability list) list" where
  "groups_push groups t vuln =
     (let key = groupKey vuln;
          vulnWithTool = vuln\<lparr>tools := [(t, True)]\<rparr>
      in case map_of groups key of
           None \<Rightarrow> groups @ [(key, [vulnWithTool])]
         | Some g \<Rightarrow> AList.update key (g @ [vulnWithTool]) groups)"

definition groupFindings :: "tool_result list \<Rightarrow> vulnerability list list" where
  "groupFindings results =
     map snd
       (foldl (\<lambda>groups result.
                 foldl (\<lambda>gs vuln. groups_push gs (tool result) vuln) groups
                   (tr_vulnerabilities result))
          [] results)"

text \<open>
  The counting loop of \<open>calculateConsensus\<close>: \<open>toolAgreements[tool]\<close> is the number of
  findings of the group that carry \<open>tool\<close> as a key of \<open>tools\<close>. The locals
  \<open>maxAgreements\<close> and \<open>maxTool\<close> of the source are never read and are left out.
\<close>

definition countTool :: "(string \<times> nat) list \<Rightarrow> string \<Rightarrow> (string \<times> nat) list" where
  "countTool toolAgreements t =
     (case map_of toolAgreements t of
        None \<Rightarrow> toolAgreements @ [(t, 1)]
      | Some n \<Rightarrow> AList.update t (n + 1) toolAgreements)"

definition countTools :: "vulnerability list \<Rightarrow> (string \<times> nat) list" where
  "countTools grp =
     foldl (\<lambda>ta vuln. foldl countTool ta (map fst (tools vuln))) [] grp"

definition severityMap :: "severity \<Rightarrow> nat" where
  "severityMap s = (case s of Critical \<Rightarrow> 3 | High \<Rightarrow> 2 | Medium \<Rightarrow> 1 | Low \<Rightarrow> 0)"

text \<open>\<open>Object.keys(severityMap).find(...)\<close>: the first key, in the order critical, high,
  medium, low, whose index is the maximum; \<open>base.severity\<close> when there is none.\<close>

definition severityOfIndex :: "nat \<Rightarrow> severity \<Rightarrow> severity" where
  "severityOfIndex n fallback =
     (case find (\<lambda>s. severityMap s = n) [Critical, High, Medium, Low] of
        Some s \<Rightarrow> s
      | None \<Rightarrow> fallback)"

text \<open>
  \<open>mergeFindings\<close>. The result is \<open>group[0]\<close>, that is \<open>undefined\<close>, on an empty group.
\<close>

definition mergeFindings :: "vulnerability list \<Rightarrow> string list \<Rightarrow> vulnerability option" where
  "mergeFindings grp tls =
     (case grp of
        [] \<Rightarrow> None
      | base # _ \<Rightarrow>
          let combinedTools = foldl (\<lambda>obj t. js_set obj t True) [] tls;
              descriptions = filter (\<lambda>d. d \<noteq> []) (map description grp);
              mergedDescription =
                (if length descriptions > 1
                 then title base @ '' - '' @ join '', '' tls @ '' detected''
                 else description base);
              maxSeverityIndex = Max (set (map (\<lambda>v. severityMap (severity v)) grp));
              mergedSeverity = severityOfIndex maxSeverityIndex (severity base)
          in Some (base\<lparr>title := mergedDescription,
                         description := mergedDescription,
                         severity := mergedSeverity,
                         tools := combinedTools,
                         confidence := Some ConfMedium,
                         confidenceScore := foldl (\<lambda>sum t. js_add sum (weightOf t)) (Num 0) tls\<rparr>))"

text \<open>
  \<open>calculateConsensus\<close>. In the agreeing branch the local \<open>confidence\<close> is declared with
  the type annotation \<open>'medium'\<close> and no initial value, so it is \<open>undefined\<close> unless at
  least three tools are in \<open>agreedTools\<close>; the object spread then overwrites the
  \<open>'medium'\<close> that \<open>mergeFindings\<close> had stored.
\<close>

definition calculateConsensus :: "vulnerability list \<Rightarrow> consensus_info" where
  "calculateConsensus grp =
     (case grp of
        [] \<Rightarrow> \<lparr>ci_agreed = False, ci_conflict = False, ci_finding = None, ci_findings = grp\<rparr>
      | [g0] \<Rightarrow>
          \<lparr>ci_agreed = False, ci_conflict = False, ci_finding = Some g0, ci_findings = grp\<rparr>
      | g0 # _ \<Rightarrow>
          let toolAgreements = countTools grp;
              agreedTools = map fst (filter (\<lambda>(t, count). count \<ge> 2) toolAgreements)
          in if length agreedTools \<ge> 2 then
               let score = foldl (\<lambda>sum t. js_add sum (weightOf t)) (Num 0) agreedTools;
                   merged = mergeFindings grp agreedTools;
                   conf = (if length agreedTools \<ge> 3 then Some ConfHigh else None)
               in \<lparr>ci_agreed = True, ci_conflict = False,
                   ci_finding =
                     map_option (\<lambda>m. m\<lparr>confidence := conf, confidenceScore := score\<rparr>) merged,
                   ci_findings = grp\<rparr>
             else
               \<lparr>ci_agreed = False, ci_conflict = (length grp > 1),
                ci_finding = Some g0, ci_findings = grp\<rparr>)"

text \<open>
  \<open>resolveConflict\<close>. \<open>maxTool\<close> is the first entry of the weight table after a stable
  sort by descending weight, or \<open>'ai'\<close> when that name is missing or empty. It does not
  depend on the group.
\<close>

definition maxTool :: string where
  "maxTool =
     (case sort_key (\<lambda>(t, w). - w) toolWeights of
        [] \<Rightarrow> ''ai''
      | (t, w) # _ \<Rightarrow> if t = [] then ''ai'' else t)"

definition resolveConflict ::
  "vulnerability list \<Rightarrow> vulnerability list \<Rightarrow> vulnerability option" where
  "resolveConflict grp fs =
     (case find (\<lambda>f. map_of (tools f) maxTool = Some True) fs of
        None \<Rightarrow> (case fs of [] \<Rightarrow> None | f0 # _ \<Rightarrow> Some f0)
      | Some trustedFinding \<Rightarrow>
          Some (trustedFinding\<lparr>confidence := Some ConfHigh,
                                confidenceScore := Num 100,
                                tools := AList.update maxTool True (tools trustedFinding)\<rparr>))"

text \<open>
  The body of the \<open>for\<close> loop of \<open>combineResults\<close>, as the value pushed onto
  \<open>processedVulns\<close>. Pushing \<open>undefined\<close> is not an error in the source; it cannot
  happen for a non-empty group and is reported as \<open>UndefinedFinding\<close>. In the last branch
  an empty group makes \<open>finding.tool\<close> raise.
\<close>

definition pushed :: "vulnerability option \<Rightarrow> engine_error + vulnerability" where
  "pushed v = (case v of None \<Rightarrow> Inl UndefinedFinding | Some f \<Rightarrow> Inr f)"

definition processGroup :: "vulnerability list \<Rightarrow> engine_error + vulnerability" where
  "processGroup grp =
     (let c = calculateConsensus grp
      in if ci_agreed c then pushed (ci_finding c)
         else if ci_conflict c then pushed (resolveConflict grp (ci_findings c))
         else (case grp of
                 [] \<Rightarrow> Inl TypeError
               | finding # _ \<Rightarrow>
                   Inr (finding\<lparr>confidence := Some ConfLow,
                               confidenceScore := js_mul (weightOf (finding_tool finding)) (Num 50)\<rparr>)))"

text \<open>
  The loop of \<open>combineResults\<close> over the groups. The loop state is the outer object
  \<open>consensus\<close> (the statistics) and \<open>processedVulns\<close>. Inside the loop body the source
  declares a second \<open>const consensus\<close>, the result of \<open>calculateConsensus\<close>, which
  shadows the outer one: the increments \<open>consensus.agreed++\<close>, \<open>consensus.conflicts++\<close>,
  \<open>consensus.overrides++\<close> and \<open>consensus.total++\<close> all act on that inner object, which
  is dropped at the end of the iteration. The statistics are therefore passed through
  unchanged.
\<close>

fun processGroups ::
  "consensus_stats \<times> vulnerability list \<Rightarrow> vulnerability list list
     \<Rightarrow> engine_error + consensus_stats \<times> vulnerability list" where
  "processGroups (stats, processedVulns) [] = Inr (stats, processedVulns)"
| "processGroups (stats, processedVulns) (grp # groups) =
     (case processGroup grp of
        Inl e \<Rightarrow> Inl e
      | Inr v \<Rightarrow> processGroups (stats, processedVulns @ [v]) groups)"

definition combineResults :: "tool_result list \<Rightarrow> engine_error + consensus_result" where
  "combineResults results =
     (let consensus0 = \<lparr>total = 0, agreed = 0, conflicts = 0, overrides = 0\<rparr>;
          findings = groupFindings results
      in case processGroups (consensus0, []) findings of
           Inl e \<Rightarrow> Inl e
         | Inr (stats, processedVulns) \<Rightarrow>
             Inr \<lparr>cr_vulnerabilities = processedVulns,
                  consensus = stats\<lparr>total := length findings\<rparr>,
                  cr_toolWeights = toolWeights\<rparr>)"

text \<open>\<open>Object.keys(vuln.tools).length\<close>.\<close>

definition toolCount :: "vulnerability \<Rightarrow> nat" where
  "toolCount vuln = length (map fst (tools vuln))"

definition isLikelyFalsePositive :: "vulnerability \<Rightarrow> bool" where
  "isLikelyFalsePositive vuln =
     ((severity vuln = Low \<and> confidence vuln = Some ConfLow)
      \<or> (str_includes (fileName (location vuln)) ''.t.sol''
          \<or> str_includes (fileName (location vuln)) ''test'')
      \<or> (str_includes (description vuln) ''variable''
          \<or> str_includes (description vuln) ''storage slot'')
      \<or> (confidence vuln = Some ConfLow \<and> toolCount vuln = 1))"

definition adjustConfidence :: "vulnerability \<Rightarrow> vulnerability" where
  "adjustConfidence vuln =
     (let conf0 = confidence vuln;
          score0 = confidenceScore vuln;
          (conf1, score1) =
            (if severity vuln = Critical \<and> js_lt score0 (Num 80)
             then (Some ConfHigh, js_min (js_add score0 (Num 20)) (Num 100))
             else if severity vuln = High \<and> js_lt score0 (Num 70)
             then (if conf0 = Some ConfLow then Some ConfMedium else conf0,
                   js_min (js_add score0 (Num 10)) (Num 100))
             else (conf0, score0));
          (conf2, score2) =
            (if toolCount vuln \<ge> 2
             then (if conf1 = Some ConfLow then Some ConfMedium
                   else if conf1 = Some ConfMedium then Some ConfHigh
                   else conf1,
                   js_min (js_add score1 (Num 15)) (Num 100))
             else (conf1, score1))
      in vuln\<lparr>confidence := conf2, confidenceScore := score2\<rparr>)"

definition reduceFalsePositives :: "vulnerability list \<Rightarrow> vulnerability list" where
  "reduceFalsePositives vulns =
     map adjustConfidence (filter (\<lambda>vuln. \<not> isLikelyFalsePositive vuln) vulns)"


section \<open>Workspace store: data\<close>

text \<open>
  A \<open>Date\<close> is a number of milliseconds. Every \<open>new Date()\<close> of the source is an explicit
  argument of the operation that evaluates it, in the order of evaluation; nothing is
  assumed about the clock.

  The store keeps one document \<open>workspace.json\<close> per workspace directory and one report
  file per chain directory and contract. The file system is modelled by two tables: the
  documents by workspace id and the report files by workspace id, chain and file name.
  Workspace ids are taken to be plain directory names, so that two ids never denote the
  same path; directory creation and failing file operations are not modelled. The
  payload of a vulnerability is left abstract (type variable \<open>'v\<close>) and is taken to survive
  \<open>JSON.stringify\<close> and \<open>JSON.parse\<close> unchanged.
\<close>

type_synonym date = nat

datatype meta = Str string | Date date

text \<open>One entry of \<open>workspace.chains\<close>; \<open>config\<close> is always the empty object.\<close>

record 'v chain_state =
  chain_contracts :: "string list"
  chain_vulnerabilities :: "'v list"
  chain_reports :: "string list"
  chain_config :: "(string \<times> meta) list"

text \<open>Interface \<open>ChainWorkspace\<close>. A contract record is the object
  \<open>{address, chain, addedAt, ...contractData}\<close>.\<close>

record 'v workspace =
  workspaceId :: string
  chains :: "(string \<times> 'v chain_state) list"
  contracts :: "(string \<times> (string \<times> (string \<times> meta) list) list) list"
  vulnerabilities :: "(string \<times> 'v list) list"
  reports :: "(string \<times> string) list"
  createdAt :: date
  updatedAt :: date

record workspace_config =
  defaultChain :: string
  supportedChains :: "string list"
  workspaceDir :: string

definition DEFAULT_CONFIG :: workspace_config where
  "DEFAULT_CONFIG =
     \<lparr>defaultChain = ''ethereum'',
      supportedChains =
        [''ethereum'', ''bnb'', ''polygon'', ''arbitrum'', ''optimism'', ''avalanche''],
      workspaceDir = ''./workspaces''\<rparr>"

text \<open>
  The manager together with the files it owns: \<open>workspaces\<close> is the in-memory \<open>Map\<close>,
  \<open>disk\<close> holds the parsed content of each \<open>workspace.json\<close>, \<open>reportFiles\<close> the report
  files. The object stored in \<open>workspaces\<close> is the one the operations mutate, so a change
  made before an exception is raised stays visible in memory.
\<close>

record 'v manager =
  config :: workspace_config
  workspaces :: "(string \<times> 'v workspace) list"
  currentWorkspace :: "string option"
  disk :: "(string \<times> 'v workspace) list"
  reportFiles :: "((string \<times> string \<times> string) \<times> string) list"

datatype store_error =
    WorkspaceNotFound string   \<comment> \<open>\<open>throw new Error(`Workspace not found: ${workspaceId}`)\<close>\<close>
  | PushOfUndefined            \<comment> \<open>\<open>TypeError\<close>: property \<open>push\<close> of \<open>undefined\<close>\<close>

record workspace_stats =
  stats_workspaceId :: string
  stats_chains :: nat
  stats_contracts :: nat
  stats_vulnerabilities :: nat
  stats_reports :: nat
  stats_createdAt :: date
  stats_updatedAt :: date


section \<open>Workspace store: operations\<close>

text \<open>A manager constructed over an empty workspace directory.\<close>

definition new_manager :: "'v manager" where
  "new_manager =
     \<lparr>config = DEFAULT_CONFIG, workspaces = [], currentWorkspace = None,
      disk = [], reportFiles = []\<rparr>"

definition emptyChain :: "'v chain_state" where
  "emptyChain =
     \<lparr>chain_contracts = [], chain_vulnerabilities = [], chain_reports = [],
      chain_config = []\<rparr>"

text \<open>
  \<open>saveWorkspace\<close>: the document is written first, with the \<open>updatedAt\<close> the workspace has
  at that moment; then \<open>updatedAt\<close> of the object is set and the object is put into the
  \<open>Map\<close>. The result is the object after the call and the new state.
\<close>

definition saveWorkspace ::
  "string \<Rightarrow> 'v workspace \<Rightarrow> date \<Rightarrow> 'v manager \<Rightarrow> 'v workspace \<times> 'v manager" where
  "saveWorkspace wid ws now st =
     (let written = st\<lparr>disk := AList.update wid ws (disk st)\<rparr>;
          ws' = ws\<lparr>updatedAt := now\<rparr>
      in (ws', written\<lparr>workspaces := AList.update wid ws' (workspaces written)\<rparr>))"

text \<open>
  \<open>createWorkspace\<close>. There is no test whether \<open>workspaceId\<close> is already known, in memory
  or on disk, and no \<open>throw\<close>. The argument \<open>chains\<close> only selects the sub-directories to
  create; the chain table is filled from \<open>supportedChains\<close>.
\<close>

definition createWorkspace ::
  "string \<Rightarrow> string list \<Rightarrow> date \<Rightarrow> date \<Rightarrow> date \<Rightarrow> 'v manager
     \<Rightarrow> (store_error + 'v workspace) \<times> 'v manager" where
  "createWorkspace wid chs tCreated tUpdated tSaved st =
     (let ws0 = \<lparr>workspaceId = wid, chains = [], contracts = [], vulnerabilities = [],
                 reports = [], createdAt = tCreated, updatedAt = tUpdated\<rparr>;
          ws1 = ws0\<lparr>chains := foldl (\<lambda>obj c. js_set obj c emptyChain) []
                                (supportedChains (config st))\<rparr>;
          (ws2, st') = saveWorkspace wid ws1 tSaved st
      in (Inr ws2, st'\<lparr>workspaces := AList.update wid ws2 (workspaces st')\<rparr>))"

definition loadWorkspace :: "string \<Rightarrow> 'v manager \<Rightarrow> 'v workspace option \<times> 'v manager" where
  "loadWorkspace wid st =
     (case map_of (workspaces st) wid of
        Some ws \<Rightarrow> (Some ws, st)
      | None \<Rightarrow>
          (case map_of (disk st) wid of
             None \<Rightarrow> (None, st)
           | Some workspaceData \<Rightarrow>
               (Some workspaceData,
                st\<lparr>workspaces := AList.update wid workspaceData (workspaces st),
                   currentWorkspace := Some wid\<rparr>)))"

text \<open>
  The guarded push shared by the three \<open>add\<close> operations,
  \<open>if (workspace.chains[chain]) workspace.chains[chain].<list>.push(...)\<close>:
  an own entry is updated by \<open>upd\<close>; without an own entry the read is \<open>undefined\<close> and
  nothing happens, unless \<open>chain\<close> names a member of \<open>Object.prototype\<close>: that member is
  truthy, has no such list, and \<open>push\<close> is read from \<open>undefined\<close>.
\<close>

definition pushToChain ::
  "('v chain_state \<Rightarrow> 'v chain_state) \<Rightarrow> string \<Rightarrow> 'v workspace
     \<Rightarrow> store_error + 'v workspace" where
  "pushToChain upd chain ws =
     (case js_get (chains ws) chain of
        Own cs \<Rightarrow> Inr (ws\<lparr>chains := AList.update chain (upd cs) (chains ws)\<rparr>)
      | Undefined \<Rightarrow> Inr ws
      | Inherited \<Rightarrow> Inl PushOfUndefined)"

text \<open>The end of an \<open>add\<close> operation: when the push raised, the workspace object as
  mutated so far stays in the \<open>Map\<close> and nothing is saved.\<close>

definition pushAndSave ::
  "string \<Rightarrow> ('v chain_state \<Rightarrow> 'v chain_state) \<Rightarrow> string \<Rightarrow> 'v workspace \<Rightarrow> date
     \<Rightarrow> 'v manager \<Rightarrow> (store_error + unit) \<times> 'v manager" where
  "pushAndSave wid upd chain ws tSaved st =
     (case pushToChain upd chain ws of
        Inl e \<Rightarrow> (Inl e, st\<lparr>workspaces := AList.update wid ws (workspaces st)\<rparr>)
      | Inr ws' \<Rightarrow> (Inr (), snd (saveWorkspace wid ws' tSaved st)))"

text \<open>
  \<open>addContract\<close>. Contract addresses are taken not to be members of \<open>Object.prototype\<close>:
  for such an address the record would be written into the inherited member, outside
  the workspace, which the model shows as an unchanged \<open>contracts\<close> table.
\<close>

definition contractRecord ::
  "string \<Rightarrow> string \<Rightarrow> date \<Rightarrow> (string \<times> meta) list \<Rightarrow> (string \<times> meta) list" where
  "contractRecord address chain tAdded contractData =
     foldl (\<lambda>obj (k, v). AList.update k v obj)
       [(''address'', Str address), (''chain'', Str chain), (''addedAt'', Date tAdded)]
       contractData"

definition addContract ::
  "string \<Rightarrow> string \<Rightarrow> string \<Rightarrow> (string \<times> meta) list \<Rightarrow> date \<Rightarrow> date \<Rightarrow> 'v manager
     \<Rightarrow> (store_error + unit) \<times> 'v manager" where
  "addContract wid contractAddress chain contractData tAdded tSaved st =
     (case loadWorkspace wid st of
        (None, st1) \<Rightarrow> (Inl (WorkspaceNotFound wid), st1)
      | (Some ws, st1) \<Rightarrow>
          let cs1 = (case js_get (contracts ws) contractAddress of
                       Undefined \<Rightarrow> js_set (contracts ws) contractAddress []
                     | _ \<Rightarrow> contracts ws);
              cs2 = (case js_get cs1 contractAddress of
                       Own entry \<Rightarrow>
                         AList.update contractAddress
                           (js_set entry chain
                              (contractRecord contractAddress chain tAdded contractData)) cs1
                     | _ \<Rightarrow> cs1)
          in pushAndSave wid
               (\<lambda>cs. cs\<lparr>chain_contracts := chain_contracts cs @ [contractAddress]\<rparr>)
               chain (ws\<lparr>contracts := cs2\<rparr>) tSaved st1)"

text \<open>The key \<open>`${contractAddress}:${chain}`\<close>.\<close>

definition contractKey :: "string \<Rightarrow> string \<Rightarrow> string" where
  "contractKey contractAddress chain = contractAddress @ '':'' @ chain"

definition addVulnerabilities ::
  "string \<Rightarrow> string \<Rightarrow> string \<Rightarrow> 'v list \<Rightarrow> date \<Rightarrow> 'v manager
     \<Rightarrow> (store_error + unit) \<times> 'v manager" where
  "addVulnerabilities wid contractAddress chain vulns tSaved st =
     (case loadWorkspace wid st of
        (None, st1) \<Rightarrow> (Inl (WorkspaceNotFound wid), st1)
      | (Some ws, st1) \<Rightarrow>
          let key = contractKey contractAddress chain;
              vs1 = (case js_get (vulnerabilities ws) key of
                       Undefined \<Rightarrow> js_set (vulnerabilities ws) key []
                     | _ \<Rightarrow> vulnerabilities ws);
              vs2 = js_set vs1 key vulns
          in pushAndSave wid
               (\<lambda>cs. cs\<lparr>chain_vulnerabilities := chain_vulnerabilities cs @ vulns\<rparr>)
               chain (ws\<lparr>vulnerabilities := vs2\<rparr>) tSaved st1)"

text \<open>\<open>String.prototype.replace\<close> with a string pattern: the first occurrence only.\<close>

fun replace_first :: "string \<Rightarrow> string \<Rightarrow> string \<Rightarrow> string" where
  "replace_first pat rep [] = (if pat = [] then rep else [])"
| "replace_first pat rep (c # cs) =
     (if take (length pat) (c # cs) = pat then rep @ drop (length pat) (c # cs)
      else c # replace_first pat rep cs)"

definition addReport ::
  "string \<Rightarrow> string \<Rightarrow> string \<Rightarrow> string \<Rightarrow> date \<Rightarrow> 'v manager
     \<Rightarrow> (store_error + unit) \<times> 'v manager" where
  "addReport wid contractAddress chain report tSaved st =
     (case loadWorkspace wid st of
        (None, st1) \<Rightarrow> (Inl (WorkspaceNotFound wid), st1)
      | (Some ws, st1) \<Rightarrow>
          let key = contractKey contractAddress chain;
              rs = js_set (reports ws) key report
          in (case pushAndSave wid (\<lambda>cs. cs\<lparr>chain_reports := chain_reports cs @ [key]\<rparr>)
                     chain (ws\<lparr>reports := rs\<rparr>) tSaved st1 of
                (Inl e, st2) \<Rightarrow> (Inl e, st2)
              | (Inr u, st2) \<Rightarrow>
                  (Inr (),
                   st2\<lparr>reportFiles :=
                         AList.update
                           (wid, chain, replace_first ''0x'' [] contractAddress @ ''-report.md'')
                           report (reportFiles st2)\<rparr>)))"

text \<open>\<open>getWorkspaceStats\<close> reads the \<open>Map\<close> only; \<open>null\<close> is \<open>None\<close>.\<close>

definition getWorkspaceStats :: "string \<Rightarrow> 'v manager \<Rightarrow> workspace_stats option" where
  "getWorkspaceStats wid st =
     (case map_of (workspaces st) wid of
        None \<Rightarrow> None
      | Some ws \<Rightarrow>
          Some \<lparr>stats_workspaceId = wid,
                stats_chains = length (map fst (chains ws)),
                stats_contracts = length (map fst (contracts ws)),
                stats_vulnerabilities =
                  foldl (\<lambda>sum key.
                           sum + (case map_of (vulnerabilities ws) key of
                                    Some l \<Rightarrow> length l | None \<Rightarrow> 0))
                    0 (map fst (vulnerabilities ws)),
                stats_reports = length (map fst (reports ws)),
                stats_createdAt = createdAt ws,
                stats_updatedAt = updatedAt ws\<rparr>)"


section \<open>Provenance of grouped findings and concrete inputs\<close>

text \<open>A finding as \<open>groupFindings\<close> stores it: a finding \<open>v\<close> of some source \<open>r\<close> of the
  input, with \<open>tools\<close> replaced by the single key \<open>r.tool\<close>.\<close>

definition from_source :: "tool_result list \<Rightarrow> vulnerability \<Rightarrow> bool" where
  "from_source results f =
     (\<exists>r \<in> set results. \<exists>v \<in> set (tr_vulnerabilities r).
        f = v\<lparr>tools := [(tool r, True)]\<rparr>)"

text \<open>
  Findings at \<open>Bank.sol\<close>, with the line and the severity as parameters and without a
  property \<open>tool\<close>, and the findings of one source. The scenario of the specification
  is \<open>scenarioInput\<close>.
\<close>

definition bankFinding ::
  "string \<Rightarrow> int \<Rightarrow> severity \<Rightarrow> confidence \<Rightarrow> jsnum \<Rightarrow> vulnerability" where
  "bankFinding ident line sev conf score =
     \<lparr>vuln_id = ident, title = ''Reentrancy in withdraw'', severity = sev,
      description = ident @ '': state change after external call'',
      location = \<lparr>fileName = ''Bank.sol'', lineStart = line, lineEnd = line + 4\<rparr>,
      tools = [], confidence = Some conf, confidenceScore = score,
      recommendation = ''Update the balance before the external call'',
      vuln_tool = None\<rparr>"

definition source :: "string \<Rightarrow> vulnerability list \<Rightarrow> tool_result" where
  "source t vs = \<lparr>tool = t, tr_vulnerabilities = vs, tr_confidence = Num 1\<rparr>"

definition scenarioInput :: "tool_result list" where
  "scenarioInput =
     [source ''slither'' [bankFinding ''S-1'' 10 Critical ConfHigh (Num 90)],
      source ''mythril'' [bankFinding ''M-1'' 10 Critical ConfLow (Num 60)],
      source ''echidna'' []]"

text \<open>The same two sources, each reporting the key twice.\<close>

definition twiceEachInput :: "tool_result list" where
  "twiceEachInput =
     [source ''slither''
        [bankFinding ''S-1'' 10 Critical ConfHigh (Num 90),
         bankFinding ''S-2'' 10 Critical ConfHigh (Num 90)],
      source ''mythril''
        [bankFinding ''M-1'' 10 Critical ConfLow (Num 60),
         bankFinding ''M-2'' 10 Critical ConfLow (Num 60)]]"

definition threeSourcesInput :: "tool_result list" where
  "threeSourcesInput =
     [source ''slither'' [bankFinding ''S-1'' 10 Critical ConfLow (Num 40)],
      source ''mythril'' [bankFinding ''M-1'' 10 Critical ConfLow (Num 60)],
      source ''echidna'' [bankFinding ''E-1'' 10 Critical ConfMedium (Num 70)]]"



text \<open>Two sources that report different issues at the same key, without and with the
  source \<open>ai\<close>.\<close>

definition conflictWithoutAi :: "tool_result list" where
  "conflictWithoutAi =
     [source ''mythril'' [bankFinding ''M-1'' 10 High ConfLow (Num 30)],
      source ''echidna''
        [(bankFinding ''E-1'' 10 High ConfMedium (Num 45))
           \<lparr>title := ''Unchecked return value of send''\<rparr>]]"

definition conflictWithAi :: "tool_result list" where
  "conflictWithAi =
     [source ''slither'' [bankFinding ''S-1'' 10 High ConfLow (Num 30)],
      source ''ai''
        [(bankFinding ''A-1'' 10 High ConfMedium (Num 45))
           \<lparr>title := ''Unchecked return value of send''\<rparr>]]"

text \<open>Two groups: at line 10 two sources with two findings each, at line 20 two sources
  with one finding each.\<close>

definition twoGroupsInput :: "tool_result list" where
  "twoGroupsInput =
     [source ''slither''
        [bankFinding ''S-1'' 10 Critical ConfLow (Num 40),
         bankFinding ''S-2'' 10 Critical ConfLow (Num 40),
         bankFinding ''S-3'' 20 High ConfLow (Num 40)],
      source ''mythril''
        [bankFinding ''M-1'' 10 Critical ConfLow (Num 60),
         bankFinding ''M-2'' 10 Critical ConfLow (Num 60),
         bankFinding ''M-3'' 20 High ConfLow (Num 60)]]"

definition boostedFinding :: vulnerability where
  "boostedFinding =
     (bankFinding ''S-1'' 10 Critical ConfHigh (Num 50))
       \<lparr>tools := [(''slither'', True), (''mythril'', True)]\<rparr>"

text \<open>Workspace states: after \<open>createWorkspace("w1", ["ethereum", "bnb"])\<close> on a fresh
  manager, and after one more \<open>addVulnerabilities\<close>. The payload of a vulnerability is a
  string here.\<close>

definition afterCreate :: "string manager" where
  "afterCreate = snd (createWorkspace ''w1'' [''ethereum'', ''bnb''] 1 2 3 new_manager)"

definition afterAdd :: "string manager" where
  "afterAdd =
     snd (addVulnerabilities ''w1'' ''0xAA'' ''ethereum'' [''v1'', ''v2''] 4 afterCreate)"

text \<open>The workspace \<open>createWorkspace\<close> builds, before it is saved.\<close>

definition freshWorkspace :: "string \<Rightarrow> date \<Rightarrow> date \<Rightarrow> 'v manager \<Rightarrow> 'v workspace" where
  "freshWorkspace wid tCreated tUpdated st =
     \<lparr>workspaceId = wid,
      chains = foldl (\<lambda>obj c. js_set obj c emptyChain) [] (supportedChains (config st)),
      contracts = [], vulnerabilities = [], reports = [],
      createdAt = tCreated, updatedAt = tUpdated\<rparr>"

section \<open>Consensus engine: general facts\<close>

lemma maxTool_ai: "maxTool = ''ai''"
  by (simp add: maxTool_def toolWeights_def sort_key_def)

lemma mergeFindings_Some: "grp \<noteq> [] \<Longrightarrow> \<exists>m. mergeFindings grp tls = Some m"
  by (cases grp) (simp_all add: mergeFindings_def Let_def)

lemma resolveConflict_Some: "fs \<noteq> [] \<Longrightarrow> \<exists>r. resolveConflict grp fs = Some r"
  by (cases fs) (simp_all add: resolveConflict_def split: option.splits)

lemma calculateConsensus_findings: "ci_findings (calculateConsensus grp) = grp"
  by (simp add: calculateConsensus_def Let_def split: list.splits)

lemma calculateConsensus_long:
  "calculateConsensus (g0 # g1 # rest) =
     (let grp = g0 # g1 # rest;
          agreedTools = map fst (filter (\<lambda>(t, count). count \<ge> 2) (countTools grp))
      in if length agreedTools \<ge> 2 then
           \<lparr>ci_agreed = True, ci_conflict = False,
            ci_finding =
              map_option
                (\<lambda>m. m\<lparr>confidence := (if length agreedTools \<ge> 3 then Some ConfHigh else None),
                        confidenceScore :=
                          foldl (\<lambda>sum t. js_add sum (weightOf t)) (Num 0) agreedTools\<rparr>)
                (mergeFindings grp agreedTools),
            ci_findings = grp\<rparr>
         else \<lparr>ci_agreed = False, ci_conflict = True, ci_finding = Some g0,
               ci_findings = grp\<rparr>)"
  by (simp add: calculateConsensus_def Let_def)

text \<open>The agreeing branch always carries a finding, so \<open>UndefinedFinding\<close> does not arise
  from it.\<close>

lemma calculateConsensus_agreed_finding:
  assumes "ci_agreed (calculateConsensus grp)"
  shows "\<exists>f. ci_finding (calculateConsensus grp) = Some f"
proof (cases grp)
  case Nil
  with assms show ?thesis by (simp add: calculateConsensus_def)
next
  case (Cons g0 rest)
  show ?thesis
  proof (cases rest)
    case Nil
    with Cons assms show ?thesis by (simp add: calculateConsensus_def)
  next
    case (Cons g1 rest')
    with \<open>grp = g0 # rest\<close> have grp: "grp = g0 # g1 # rest'" by simp
    obtain m where
      "mergeFindings grp (map fst (filter (\<lambda>(t, count). count \<ge> 2) (countTools grp))) = Some m"
      using mergeFindings_Some [of grp] grp by blast
    with assms show ?thesis
      unfolding grp calculateConsensus_long Let_def
      by (simp split: if_splits)
  qed
qed

lemma conflict_not_agreed:
  "ci_conflict (calculateConsensus grp) \<Longrightarrow> \<not> ci_agreed (calculateConsensus grp) \<and> grp \<noteq> []"
proof (cases grp)
  case Nil
  assume "ci_conflict (calculateConsensus grp)"
  with Nil show ?thesis by (simp add: calculateConsensus_def)
next
  case (Cons g0 rest)
  assume c: "ci_conflict (calculateConsensus grp)"
  show ?thesis
  proof (cases rest)
    case Nil
    with Cons c show ?thesis by (simp add: calculateConsensus_def)
  next
    case (Cons g1 rest')
    with \<open>grp = g0 # rest\<close> have grp: "grp = g0 # g1 # rest'" by simp
    from c show ?thesis
      unfolding grp calculateConsensus_long Let_def
      by (simp split: if_splits)
  qed
qed

text \<open>The loop body returns a finding for every non-empty group.\<close>

lemma processGroup_total: 
  assumes ne: "grp \<noteq> []"
  shows "\<exists>v. processGroup grp = Inr v"
proof (cases "ci_agreed (calculateConsensus grp)")
  case True
  with calculateConsensus_agreed_finding [of grp] show ?thesis
    by (auto simp: processGroup_def Let_def pushed_def)
next
  case False
  show ?thesis
  proof (cases "ci_conflict (calculateConsensus grp)")
    case True
    with False resolveConflict_Some [OF ne, of grp] show ?thesis
      by (auto simp: processGroup_def Let_def pushed_def calculateConsensus_findings)
  next
    case nc: False
    with False ne show ?thesis
      by (cases grp) (auto simp: processGroup_def Let_def)
  qed
qed

lemma processGroups_eq:
  "\<forall>g \<in> set gs. g \<noteq> [] \<Longrightarrow>
   processGroups (s, acc) gs = Inr (s, acc @ map (\<lambda>g. projr (processGroup g)) gs)"
proof (induction gs arbitrary: acc)
  case Nil
  then show ?case by simp
next
  case (Cons g gs)
  then have "g \<noteq> []" by simp
  then obtain v where v: "processGroup g = Inr v" using processGroup_total by blast
  with Cons show ?case by simp
qed

text \<open>Invariant of the grouping loops: no group is empty and every grouped finding
  satisfies a predicate that holds for each finding as it is stored.\<close>

lemma update_pred:
  "\<forall>p \<in> set al. Q (snd p) \<Longrightarrow> Q x \<Longrightarrow> \<forall>p \<in> set (AList.update k x al). Q (snd p)"
  by (induction al) auto

lemma groups_push_inv:
  assumes "\<forall>p \<in> set gs. Q (snd p)"
    and "Q [v\<lparr>tools := [(t, True)]\<rparr>]"
    and "\<And>g. Q g \<Longrightarrow> Q (g @ [v\<lparr>tools := [(t, True)]\<rparr>])"
  shows "\<forall>p \<in> set (groups_push gs t v). Q (snd p)"
proof (cases "map_of gs (groupKey v)")
  case None
  with assms(1,2) show ?thesis by (simp add: groups_push_def Let_def)
next
  case (Some g)
  then have "(groupKey v, g) \<in> set gs" by (rule map_of_SomeD)
  with assms(1) have "Q g" by force
  then have "Q (g @ [v\<lparr>tools := [(t, True)]\<rparr>])" by (rule assms(3))
  with assms(1) Some show ?thesis
    by (simp add: groups_push_def Let_def update_pred)
qed

lemma inner_fold_inv:
  assumes "\<forall>p \<in> set gs. snd p \<noteq> [] \<and> (\<forall>f \<in> set (snd p). P f)"
    and "\<forall>v \<in> set vs. P (v\<lparr>tools := [(t, True)]\<rparr>)"
  shows "\<forall>p \<in> set (foldl (\<lambda>gs v. groups_push gs t v) gs vs).
           snd p \<noteq> [] \<and> (\<forall>f \<in> set (snd p). P f)"
  using assms
proof (induction vs arbitrary: gs)
  case Nil
  then show ?case by simp
next
  case (Cons v vs)
  let ?Q = "\<lambda>g. g \<noteq> [] \<and> (\<forall>f \<in> set g. P f)"
  let ?v = "v\<lparr>tools := [(t, True)]\<rparr>"
  from Cons.prems(2) have pv: "P ?v" by simp
  have "\<forall>p \<in> set (groups_push gs t v). ?Q (snd p)"
  proof (rule groups_push_inv [where Q = ?Q])
    show "\<forall>p \<in> set gs. ?Q (snd p)" by (rule Cons.prems(1))
    show "?Q [?v]" using pv by simp
    show "?Q (g @ [?v])" if "?Q g" for g using that pv by simp
  qed
  moreover from Cons.prems(2) have "\<forall>v \<in> set vs. P (v\<lparr>tools := [(t, True)]\<rparr>)" by simp
  ultimately have
    "\<forall>p \<in> set (foldl (\<lambda>gs v. groups_push gs t v) (groups_push gs t v) vs). ?Q (snd p)"
    by (rule Cons.IH)
  then show ?case by simp
qed

lemma outer_fold_inv:
  assumes "\<forall>p \<in> set gs. snd p \<noteq> [] \<and> (\<forall>f \<in> set (snd p). P f)"
    and "\<forall>r \<in> set rs. \<forall>v \<in> set (tr_vulnerabilities r). P (v\<lparr>tools := [(tool r, True)]\<rparr>)"
  shows "\<forall>p \<in> set (foldl (\<lambda>groups result.
                 foldl (\<lambda>gs vuln. groups_push gs (tool result) vuln) groups
                   (tr_vulnerabilities result)) gs rs).
           snd p \<noteq> [] \<and> (\<forall>f \<in> set (snd p). P f)"
  using assms
proof (induction rs arbitrary: gs)
  case Nil
  then show ?case by simp
next
  case (Cons r rs)
  let ?gs' = "foldl (\<lambda>gs vuln. groups_push gs (tool r) vuln) gs (tr_vulnerabilities r)"
  from Cons.prems(2)
  have "\<forall>v \<in> set (tr_vulnerabilities r). P (v\<lparr>tools := [(tool r, True)]\<rparr>)" by simp
  with Cons.prems(1)
  have "\<forall>p \<in> set ?gs'. snd p \<noteq> [] \<and> (\<forall>f \<in> set (snd p). P f)"
    by (rule inner_fold_inv)
  moreover from Cons.prems(2)
  have "\<forall>r \<in> set rs. \<forall>v \<in> set (tr_vulnerabilities r). P (v\<lparr>tools := [(tool r, True)]\<rparr>)"
    by simp
  ultimately have "\<forall>p \<in> set (foldl (\<lambda>groups result.
                 foldl (\<lambda>gs vuln. groups_push gs (tool result) vuln) groups
                   (tr_vulnerabilities result)) ?gs' rs).
           snd p \<noteq> [] \<and> (\<forall>f \<in> set (snd p). P f)"
    by (rule Cons.IH)
  then show ?case by simp
qed

lemma groupFindings_inv:
  assumes g: "g \<in> set (groupFindings results)"
  shows "g \<noteq> [] \<and> (\<forall>f \<in> set g. from_source results f)"
proof -
  have "\<forall>p \<in> set (foldl (\<lambda>groups result.
                 foldl (\<lambda>gs vuln. groups_push gs (tool result) vuln) groups
                   (tr_vulnerabilities result)) [] results).
           snd p \<noteq> [] \<and> (\<forall>f \<in> set (snd p). from_source results f)"
    by (rule outer_fold_inv) (auto simp: from_source_def)
  with g show ?thesis by (auto simp: groupFindings_def)
qed

text \<open>
  \<open>combineResults\<close> never raises: it returns one finding per group, in the order of the
  groups, and statistics whose only non-zero member is \<open>total\<close>.
\<close>

lemma combineResults_eq:
  "combineResults results =
     Inr \<lparr>cr_vulnerabilities = map (\<lambda>g. projr (processGroup g)) (groupFindings results),
          consensus = \<lparr>total = length (groupFindings results), agreed = 0, conflicts = 0,
                       overrides = 0\<rparr>,
          cr_toolWeights = toolWeights\<rparr>"
proof -
  have "\<forall>g \<in> set (groupFindings results). g \<noteq> []"
    using groupFindings_inv by blast
  then show ?thesis
    by (simp add: combineResults_def Let_def processGroups_eq)
qed

text \<open>\<open>adjustConfidence\<close> never lowers a tier to \<open>low\<close> and touches two fields only.\<close>

lemma adjust_conf_low:
  "confidence (adjustConfidence v) = Some ConfLow \<Longrightarrow> confidence v = Some ConfLow"
  by (auto simp: adjustConfidence_def Let_def split: if_splits)

lemma adjust_fields:
  "severity (adjustConfidence v) = severity v"
  "location (adjustConfidence v) = location v"
  "description (adjustConfidence v) = description v"
  "toolCount (adjustConfidence v) = toolCount v"
  by (simp_all add: adjustConfidence_def Let_def toolCount_def split: prod.splits)

lemma adjust_not_fp:
  "\<not> isLikelyFalsePositive v \<Longrightarrow> \<not> isLikelyFalsePositive (adjustConfidence v)"
  using adjust_conf_low [of v]
  by (auto simp: isLikelyFalsePositive_def adjust_fields)


section \<open>Consensus engine: the claims\<close>

text \<open>
  Claim C1, at the scenario of the specification. Slither and Mythril report one finding
  each at \<open>(Bank.sol, 10, critical)\<close>, Echidna reports nothing. \<open>calculateConsensus\<close>
  counts the findings per tool, no tool reaches two, and the group goes down the
  conflict path; \<open>'ai'\<close> is not in the group, so \<open>resolveConflict\<close> returns the first
  finding as it is. The result is one finding with \<open>tools = {slither}\<close> and the tier the
  Slither finding came with (\<open>high\<close> here), not \<open>{slither, mythril}\<close> and \<open>medium\<close>;
  \<open>total\<close> is 1. When each of the two sources reports the key twice, the group is a
  consensus hit with the two tools and the score 0.4 + 0.3, but its tier is \<open>undefined\<close>,
  not \<open>medium\<close>.
\<close>

theorem scenario_two_sources_not_merged:
  "combineResults scenarioInput =
     Inr \<lparr>cr_vulnerabilities =
            [(bankFinding ''S-1'' 10 Critical ConfHigh (Num 90))
               \<lparr>tools := [(''slither'', True)]\<rparr>],
          consensus = \<lparr>total = 1, agreed = 0, conflicts = 0, overrides = 0\<rparr>,
          cr_toolWeights = toolWeights\<rparr>
   \<and> combineResults twiceEachInput =
     Inr \<lparr>cr_vulnerabilities =
            [(bankFinding ''S-1'' 10 Critical ConfHigh (Num 90))
               \<lparr>title := ''Reentrancy in withdraw - slither, mythril detected'',
                description := ''Reentrancy in withdraw - slither, mythril detected'',
                tools := [(''slither'', True), (''mythril'', True)],
                confidence := None,
                confidenceScore := Num (7 / 10)\<rparr>],
          consensus = \<lparr>total = 1, agreed = 0, conflicts = 0, overrides = 0\<rparr>,
          cr_toolWeights = toolWeights\<rparr>"
  by code_simp

text \<open>
  Claim C2, at three sources with one finding each at the same key. The group again goes
  down the conflict path and the first finding is returned with its own tier, \<open>low\<close>.
\<close>

theorem three_sources_not_high:
  "combineResults threeSourcesInput =
     Inr \<lparr>cr_vulnerabilities =
            [(bankFinding ''S-1'' 10 Critical ConfLow (Num 40))
               \<lparr>tools := [(''slither'', True)]\<rparr>],
          consensus = \<lparr>total = 1, agreed = 0, conflicts = 0, overrides = 0\<rparr>,
          cr_toolWeights = toolWeights\<rparr>"
  by code_simp




text \<open>
  Claim C4 fails as stated: Mythril and Echidna report different issues at the same key,
  one finding each. The group is flagged as a conflict, \<open>'ai'\<close> is not in it, and the
  first finding comes back unchanged: tier \<open>low\<close> and score 30, not \<open>high\<close> and 100.
\<close>

theorem conflict_without_ai_counterexample:
  "ci_conflict (calculateConsensus (groupFindings conflictWithoutAi ! 0))
   \<and> combineResults conflictWithoutAi =
       Inr \<lparr>cr_vulnerabilities =
              [(bankFinding ''M-1'' 10 High ConfLow (Num 30))
                 \<lparr>tools := [(''mythril'', True)]\<rparr>],
            consensus = \<lparr>total = 1, agreed = 0, conflicts = 0, overrides = 0\<rparr>,
            cr_toolWeights = toolWeights\<rparr>"
  by code_simp

text \<open>
  Claim C4, amended. For every group that \<open>calculateConsensus\<close> flags as a conflict,
  \<open>combineResults\<close> emits: when a finding of the group was reported by the source with
  the highest weight of the whole table (\<open>'ai'\<close>, 0.50), the first such finding with tier
  \<open>high\<close> and score 100; otherwise the first finding of the group, unchanged.
\<close>

theorem conflict_group_resolution:
  assumes "i < length (groupFindings results)"
    and "ci_conflict (calculateConsensus (groupFindings results ! i))"
  shows "\<exists>res. combineResults results = Inr res \<and>
           cr_vulnerabilities res ! i =
             (case find (\<lambda>f. map_of (tools f) ''ai'' = Some True) (groupFindings results ! i) of
                Some trusted \<Rightarrow> trusted\<lparr>confidence := Some ConfHigh, confidenceScore := Num 100\<rparr>
              | None \<Rightarrow> hd (groupFindings results ! i))"
proof -
  let ?g = "groupFindings results ! i"
  from assms(2) have na: "\<not> ci_agreed (calculateConsensus ?g)" and ne: "?g \<noteq> []"
    using conflict_not_agreed by blast+
  have upd: "AList.update ''ai'' True (tools t) = tools t"
    if "map_of (tools t) ''ai'' = Some True" for t
    using that by (simp add: AList.update_triv)
  have "processGroup ?g =
          Inr (case find (\<lambda>f. map_of (tools f) ''ai'' = Some True) ?g of
                 Some trusted \<Rightarrow> trusted\<lparr>confidence := Some ConfHigh, confidenceScore := Num 100\<rparr>
               | None \<Rightarrow> hd ?g)"
  proof (cases "find (\<lambda>f. map_of (tools f) ''ai'' = Some True) ?g")
    case None
    with na assms(2) ne show ?thesis
      by (cases ?g) (simp_all add: processGroup_def Let_def pushed_def calculateConsensus_findings
          resolveConflict_def maxTool_ai)
  next
    case (Some t)
    then have "map_of (tools t) ''ai'' = Some True"
      by (auto simp: find_Some_iff)
    with Some na assms(2) show ?thesis
      by (simp add: processGroup_def Let_def pushed_def calculateConsensus_findings
          resolveConflict_def maxTool_ai upd)
  qed
  with assms(1) show ?thesis
    by (simp add: combineResults_eq)
qed

theorem conflict_group_resolution_witness:
  "0 < length (groupFindings conflictWithAi)
   \<and> ci_conflict (calculateConsensus (groupFindings conflictWithAi ! 0))
   \<and> \<not> isl (combineResults conflictWithAi)
   \<and> cr_vulnerabilities (projr (combineResults conflictWithAi)) ! 0 =
       (bankFinding ''A-1'' 10 High ConfMedium (Num 45))
         \<lparr>title := ''Unchecked return value of send'', tools := [(''ai'', True)],
          confidence := Some ConfHigh, confidenceScore := Num 100\<rparr>"
proof -
  have h1: "0 < length (groupFindings conflictWithAi)"
    by code_simp
  have h2: "ci_conflict (calculateConsensus (groupFindings conflictWithAi ! 0))"
    by code_simp
  have f: "find (\<lambda>f. map_of (tools f) ''ai'' = Some True) (groupFindings conflictWithAi ! 0) =
             Some ((bankFinding ''A-1'' 10 High ConfMedium (Num 45))
                     \<lparr>title := ''Unchecked return value of send'', tools := [(''ai'', True)]\<rparr>)"
    by code_simp
  from conflict_group_resolution [OF h1 h2] obtain res where
    "combineResults conflictWithAi = Inr res"
    "cr_vulnerabilities res ! 0 =
       (case find (\<lambda>f. map_of (tools f) ''ai'' = Some True) (groupFindings conflictWithAi ! 0) of
          Some trusted \<Rightarrow> trusted\<lparr>confidence := Some ConfHigh, confidenceScore := Num 100\<rparr>
        | None \<Rightarrow> hd (groupFindings conflictWithAi ! 0))"
    by blast
  with f h1 h2 show ?thesis by simp
qed

text \<open>
  Claim C5, at an input with two groups. The group at line 10 is resolved as a consensus
  hit and the group at line 20 through the conflict path, yet \<open>agreed\<close>, \<open>conflicts\<close> and
  \<open>overrides\<close> are all 0; only \<open>total\<close> counts the groups.
\<close>

theorem stats_count_nothing_but_total:
  "length (groupFindings twoGroupsInput) = 2
   \<and> ci_agreed (calculateConsensus (groupFindings twoGroupsInput ! 0))
   \<and> ci_conflict (calculateConsensus (groupFindings twoGroupsInput ! 1))
   \<and> map_sum id consensus (combineResults twoGroupsInput) =
       Inr \<lparr>total = 2, agreed = 0, conflicts = 0, overrides = 0\<rparr>"
  by code_simp

text \<open>
  Claim C8 fails as stated: a critical finding with score 50 and two tools is raised to 85
  by the first pass and to 100 by the second.
\<close>

theorem reduceFalsePositives_not_idempotent_counterexample:
  "reduceFalsePositives [boostedFinding] = [boostedFinding\<lparr>confidenceScore := Num 85\<rparr>]
   \<and> reduceFalsePositives (reduceFalsePositives [boostedFinding]) =
       [boostedFinding\<lparr>confidenceScore := Num 100\<rparr>]
   \<and> reduceFalsePositives (reduceFalsePositives [boostedFinding]) \<noteq>
       reduceFalsePositives [boostedFinding]"
  by code_simp

text \<open>
  Claim C8, amended. A second application of \<open>reduceFalsePositives\<close> drops no further
  finding; it applies \<open>adjustConfidence\<close> once more to every finding that survived the
  first application.
\<close>

theorem reduceFalsePositives_twice:
  "reduceFalsePositives (reduceFalsePositives vulns) =
     map adjustConfidence (reduceFalsePositives vulns)"
proof -
  have "filter (\<lambda>v. \<not> isLikelyFalsePositive v) (reduceFalsePositives vulns) =
          reduceFalsePositives vulns"
    by (rule filter_True) (auto simp: reduceFalsePositives_def adjust_not_fp)
  then show ?thesis
    by (simp add: reduceFalsePositives_def)
qed

theorem reduceFalsePositives_twice_witness:
  "reduceFalsePositives (reduceFalsePositives [boostedFinding]) =
     [adjustConfidence (boostedFinding\<lparr>confidenceScore := Num 85\<rparr>)]"
proof -
  have "reduceFalsePositives [boostedFinding] = [boostedFinding\<lparr>confidenceScore := Num 85\<rparr>]"
    by code_simp
  with reduceFalsePositives_twice [of "[boostedFinding]"] show ?thesis
    by simp
qed

section \<open>Workspace store: general facts\<close>

lemma contractKey_not_proto: "contractKey a c \<noteq> ''__proto__''"
proof
  assume "contractKey a c = ''__proto__''"
  then have "set (contractKey a c) = set ''__proto__''" by simp
  moreover have "CHR '':'' \<in> set (contractKey a c)" by (simp add: contractKey_def)
  ultimately show False by simp
qed

lemma map_of_js_set:
  "k \<noteq> ''__proto__'' \<Longrightarrow> map_of (js_set obj k v) = (map_of obj)(k \<mapsto> v)"
  by (simp add: js_set_def update_conv')

lemma saveWorkspace_state:
  "map_of (disk (snd (saveWorkspace wid ws now st))) wid = Some ws"
  "map_of (workspaces (snd (saveWorkspace wid ws now st))) wid = Some (ws\<lparr>updatedAt := now\<rparr>)"
  by (simp_all add: saveWorkspace_def Let_def update_conv')


lemma pushAndSave_undefined:
  "js_get (chains ws) chain = Undefined \<Longrightarrow>
     pushAndSave wid upd chain ws now st = (Inr (), snd (saveWorkspace wid ws now st))"
  by (simp add: pushAndSave_def pushToChain_def)

lemma pushAndSave_inherited:
  "js_get (chains ws) chain = Inherited \<Longrightarrow>
     pushAndSave wid upd chain ws now st =
       (Inl PushOfUndefined, st\<lparr>workspaces := AList.update wid ws (workspaces st)\<rparr>)"
  by (simp add: pushAndSave_def pushToChain_def)

text \<open>A completed push-and-save has written a document with the old \<open>updatedAt\<close> and
  left the same workspace with the new \<open>updatedAt\<close> in memory.\<close>

lemma pushAndSave_ok:
  assumes "pushAndSave wid upd chain ws now st = (Inr u, st')"
  shows "\<exists>ws'. updatedAt ws' = updatedAt ws \<and> map_of (disk st') wid = Some ws'
            \<and> map_of (workspaces st') wid = Some (ws'\<lparr>updatedAt := now\<rparr>)"
proof (cases "pushToChain upd chain ws")
  case (Inl e)
  with assms show ?thesis by (simp add: pushAndSave_def)
next
  case (Inr ws')
  then have "updatedAt ws' = updatedAt ws"
    by (auto simp: pushToChain_def split: js_prop.splits)
  with Inr assms show ?thesis
    by (auto simp: pushAndSave_def saveWorkspace_state)
qed






lemma createWorkspace_result:
  "fst (createWorkspace wid chs tc tu ts st) =
     Inr ((freshWorkspace wid tc tu st)\<lparr>updatedAt := ts\<rparr>)"
  "map_of (disk (snd (createWorkspace wid chs tc tu ts st))) wid =
     Some (freshWorkspace wid tc tu st)"
  "map_of (workspaces (snd (createWorkspace wid chs tc tu ts st))) wid =
     Some ((freshWorkspace wid tc tu st)\<lparr>updatedAt := ts\<rparr>)"
  by (simp_all add: createWorkspace_def saveWorkspace_def freshWorkspace_def Let_def
      update_conv')

lemma add_ops_updatedAt:
  assumes "fst (loadWorkspace wid st) = Some ws"
  shows "addContract wid a chain cd ta ts st = (Inr (), st') \<longrightarrow>
           map_option updatedAt (map_of (disk st') wid) = Some (updatedAt ws)
           \<and> map_option updatedAt (map_of (workspaces st') wid) = Some ts"
    and "addVulnerabilities wid a chain vs ts st = (Inr (), st') \<longrightarrow>
           map_option updatedAt (map_of (disk st') wid) = Some (updatedAt ws)
           \<and> map_option updatedAt (map_of (workspaces st') wid) = Some ts"
    and "addReport wid a chain rep ts st = (Inr (), st') \<longrightarrow>
           map_option updatedAt (map_of (disk st') wid) = Some (updatedAt ws)
           \<and> map_option updatedAt (map_of (workspaces st') wid) = Some ts"
proof -
  obtain st1 where l: "loadWorkspace wid st = (Some ws, st1)"
    using assms by (cases "loadWorkspace wid st") simp
  show "addContract wid a chain cd ta ts st = (Inr (), st') \<longrightarrow>
           map_option updatedAt (map_of (disk st') wid) = Some (updatedAt ws)
           \<and> map_option updatedAt (map_of (workspaces st') wid) = Some ts"
    using l by (auto simp: addContract_def Let_def dest!: pushAndSave_ok)
  show "addVulnerabilities wid a chain vs ts st = (Inr (), st') \<longrightarrow>
           map_option updatedAt (map_of (disk st') wid) = Some (updatedAt ws)
           \<and> map_option updatedAt (map_of (workspaces st') wid) = Some ts"
    using l by (auto simp: addVulnerabilities_def Let_def dest!: pushAndSave_ok)
  show "addReport wid a chain rep ts st = (Inr (), st') \<longrightarrow>
           map_option updatedAt (map_of (disk st') wid) = Some (updatedAt ws)
           \<and> map_option updatedAt (map_of (workspaces st') wid) = Some ts"
    using l
    by (auto simp: addReport_def Let_def split: prod.splits sum.splits dest!: pushAndSave_ok)
qed

text \<open>
  A chain without an own entry whose name is not a member of \<open>Object.prototype\<close>:
  \<open>addContract\<close> and \<open>addVulnerabilities\<close> complete, the per-contract data is stored and
  the chain table of the workspace is the one from before the call.
\<close>

lemma add_unknown_chain_frame:
  assumes "fst (loadWorkspace wid st) = Some ws"
    and "js_get (chains ws) chain = Undefined"
  shows "fst (addVulnerabilities wid a chain vs ts st) = Inr ()
     \<and> (\<exists>ws'. map_of (workspaces (snd (addVulnerabilities wid a chain vs ts st))) wid = Some ws'
          \<and> map_of (vulnerabilities ws') (contractKey a chain) = Some vs
          \<and> chains ws' = chains ws)"
    and "fst (addContract wid a chain cd ta ts st) = Inr ()
     \<and> (\<exists>ws'. map_of (workspaces (snd (addContract wid a chain cd ta ts st))) wid = Some ws'
          \<and> chains ws' = chains ws)"
proof -
  obtain st1 where l: "loadWorkspace wid st = (Some ws, st1)"
    using assms(1) by (cases "loadWorkspace wid st") simp
  let ?key = "contractKey a chain"
  let ?vs1 = "case js_get (vulnerabilities ws) ?key of
                Undefined \<Rightarrow> js_set (vulnerabilities ws) ?key [] | _ \<Rightarrow> vulnerabilities ws"
  have m: "map_of (js_set ?vs1 ?key vs) = (map_of (vulnerabilities ws))(?key \<mapsto> vs)"
    by (simp add: map_of_js_set contractKey_not_proto split: js_prop.splits)
  show "fst (addVulnerabilities wid a chain vs ts st) = Inr ()
     \<and> (\<exists>ws'. map_of (workspaces (snd (addVulnerabilities wid a chain vs ts st))) wid = Some ws'
          \<and> map_of (vulnerabilities ws') (contractKey a chain) = Some vs
          \<and> chains ws' = chains ws)"
    using l assms(2) m
    by (simp add: addVulnerabilities_def Let_def pushAndSave_undefined saveWorkspace_state)
  show "fst (addContract wid a chain cd ta ts st) = Inr ()
     \<and> (\<exists>ws'. map_of (workspaces (snd (addContract wid a chain cd ta ts st))) wid = Some ws'
          \<and> chains ws' = chains ws)"
    using l assms(2)
    by (simp add: addContract_def Let_def pushAndSave_undefined saveWorkspace_state)
qed

lemmas store_defs =
  createWorkspace_def saveWorkspace_def new_manager_def DEFAULT_CONFIG_def
  addVulnerabilities_def addContract_def addReport_def loadWorkspace_def pushAndSave_def
  pushToChain_def js_get_def js_set_def contractKey_def contractRecord_def emptyChain_def
  getWorkspaceStats_def objectPrototypeMembers_def freshWorkspace_def afterCreate_def
  afterAdd_def


section \<open>Workspace store: the claims\<close>




text \<open>
  Claim C7 fails as stated: \<open>w1\<close> has a persisted document with two vulnerabilities, and
  \<open>createWorkspace("w1", [])\<close> returns a workspace and replaces the document by an empty
  one.
\<close>

theorem createWorkspace_existing_counterexample:
  "map_option vulnerabilities (map_of (disk afterAdd) ''w1'')
     = Some [(''0xAA:ethereum'', [''v1'', ''v2''])]
   \<and> fst (createWorkspace ''w1'' [] 10 11 12 afterAdd)
       = Inr ((freshWorkspace ''w1'' 10 11 afterAdd)\<lparr>updatedAt := 12\<rparr>)
   \<and> map_option vulnerabilities
        (map_of (disk (snd (createWorkspace ''w1'' [] 10 11 12 afterAdd))) ''w1'') = Some []"
  by (simp add: store_defs Let_def)

text \<open>
  Claim C7, amended. \<open>createWorkspace(id, chains)\<close> has no \<open>AlreadyExists\<close> failure: for an
  id that already has persisted state it returns a new workspace, empty but for the chain
  table, and overwrites with it both the persisted document and the entry in memory.
\<close>

theorem createWorkspace_overwrites_existing:
  assumes "map_of (disk st) wid = Some old"
  shows "fst (createWorkspace wid chs tc tu ts st)
           = Inr ((freshWorkspace wid tc tu st)\<lparr>updatedAt := ts\<rparr>)
     \<and> map_of (disk (snd (createWorkspace wid chs tc tu ts st))) wid
           = Some (freshWorkspace wid tc tu st)
     \<and> map_of (workspaces (snd (createWorkspace wid chs tc tu ts st))) wid
           = Some ((freshWorkspace wid tc tu st)\<lparr>updatedAt := ts\<rparr>)"
  by (simp add: createWorkspace_result)

theorem createWorkspace_overwrites_existing_witness:
  "map_of (disk afterCreate) ''w1'' = Some (freshWorkspace ''w1'' 1 2 new_manager)
   \<and> fst (createWorkspace ''w1'' [''bnb''] 10 11 12 afterCreate)
       = Inr ((freshWorkspace ''w1'' 10 11 afterCreate)\<lparr>updatedAt := 12\<rparr>)
   \<and> map_of (disk (snd (createWorkspace ''w1'' [''bnb''] 10 11 12 afterCreate))) ''w1''
       = Some (freshWorkspace ''w1'' 10 11 afterCreate)"
proof -
  have h: "map_of (disk afterCreate) ''w1'' = Some (freshWorkspace ''w1'' 1 2 new_manager)"
    by (simp add: store_defs Let_def)
  from createWorkspace_overwrites_existing [OF h, of "[''bnb'']" 10 11 12] h
  show ?thesis by simp
qed

text \<open>
  Claim C9, at the chain name \<open>constructor\<close>. The workspace \<open>w1\<close> has no entry for that
  chain, but \<open>workspace.chains["constructor"]\<close> is the inherited member of
  \<open>Object.prototype\<close>, which is truthy; its properties \<open>contracts\<close> and
  \<open>vulnerabilities\<close> are \<open>undefined\<close>, and \<open>addContract\<close> and \<open>addVulnerabilities\<close> raise
  a \<open>TypeError\<close> on \<open>push\<close> instead of completing. Nothing is saved.
\<close>

theorem add_on_inherited_chain_name_raises:
  "map_option (\<lambda>ws. map_of (chains ws) ''constructor'') (map_of (workspaces afterCreate) ''w1'')
     = Some None
   \<and> fst (addContract ''w1'' ''0xAA'' ''constructor'' [] 4 5 afterCreate) = Inl PushOfUndefined
   \<and> fst (addVulnerabilities ''w1'' ''0xAA'' ''constructor'' [''v1''] 4 afterCreate)
       = Inl PushOfUndefined
   \<and> disk (snd (addContract ''w1'' ''0xAA'' ''constructor'' [] 4 5 afterCreate))
       = disk afterCreate"
  by (simp add: store_defs Let_def)

text \<open>
  Claim C10. \<open>saveWorkspace\<close> writes the document with the \<open>updatedAt\<close> the workspace has
  when the call starts and sets \<open>updatedAt\<close> of the workspace in memory afterwards. So
  after \<open>createWorkspace\<close> the document carries the time of construction and the
  workspace in memory the time of the save; and after each of \<open>addContract\<close>,
  \<open>addVulnerabilities\<close> and \<open>addReport\<close> that completes, the document carries the
  \<open>updatedAt\<close> the loaded workspace had before the call and the workspace in memory
  the time of the save.
\<close>

theorem persisted_updatedAt_is_previous:
  "map_option updatedAt (map_of (disk (snd (saveWorkspace wid ws now st))) wid)
     = Some (updatedAt ws)
   \<and> map_option updatedAt (map_of (workspaces (snd (saveWorkspace wid ws now st))) wid)
     = Some now
   \<and> map_option updatedAt (map_of (disk (snd (createWorkspace wid chs tc tu ts st))) wid)
     = Some tu
   \<and> map_option updatedAt (map_of (workspaces (snd (createWorkspace wid chs tc tu ts st))) wid)
     = Some ts
   \<and> (fst (loadWorkspace wid st) = Some ws
        \<and> addContract wid a chain cd ta ts st = (Inr (), st1) \<longrightarrow>
          map_option updatedAt (map_of (disk st1) wid) = Some (updatedAt ws)
          \<and> map_option updatedAt (map_of (workspaces st1) wid) = Some ts)
   \<and> (fst (loadWorkspace wid st) = Some ws
        \<and> addVulnerabilities wid a chain vs ts st = (Inr (), st2) \<longrightarrow>
          map_option updatedAt (map_of (disk st2) wid) = Some (updatedAt ws)
          \<and> map_option updatedAt (map_of (workspaces st2) wid) = Some ts)
   \<and> (fst (loadWorkspace wid st) = Some ws
        \<and> addReport wid a chain rep ts st = (Inr (), st3) \<longrightarrow>
          map_option updatedAt (map_of (disk st3) wid) = Some (updatedAt ws)
          \<and> map_option updatedAt (map_of (workspaces st3) wid) = Some ts)"
proof -
  have save: "map_option updatedAt (map_of (disk (snd (saveWorkspace wid ws now st))) wid)
       = Some (updatedAt ws)"
    "map_option updatedAt (map_of (workspaces (snd (saveWorkspace wid ws now st))) wid)
       = Some now"
    by (simp_all add: saveWorkspace_state)
  have create: "map_option updatedAt (map_of (disk (snd (createWorkspace wid chs tc tu ts st))) wid)
       = Some tu"
    "map_option updatedAt (map_of (workspaces (snd (createWorkspace wid chs tc tu ts st))) wid)
       = Some ts"
    by (simp_all add: createWorkspace_result freshWorkspace_def)
  have addC: "map_option updatedAt (map_of (disk st1) wid) = Some (updatedAt ws)
          \<and> map_option updatedAt (map_of (workspaces st1) wid) = Some ts"
    if "fst (loadWorkspace wid st) = Some ws \<and> addContract wid a chain cd ta ts st = (Inr (), st1)"
    using that add_ops_updatedAt(1) [of wid st ws a chain cd ta ts st1] by simp
  have addV: "map_option updatedAt (map_of (disk st2) wid) = Some (updatedAt ws)
          \<and> map_option updatedAt (map_of (workspaces st2) wid) = Some ts"
    if "fst (loadWorkspace wid st) = Some ws
          \<and> addVulnerabilities wid a chain vs ts st = (Inr (), st2)"
    using that add_ops_updatedAt(2) [of wid st ws a chain vs ts st2] by simp
  have addR: "map_option updatedAt (map_of (disk st3) wid) = Some (updatedAt ws)
          \<and> map_option updatedAt (map_of (workspaces st3) wid) = Some ts"
    if "fst (loadWorkspace wid st) = Some ws \<and> addReport wid a chain rep ts st = (Inr (), st3)"
    using that add_ops_updatedAt(3) [of wid st ws a chain rep ts st3] by simp
  show ?thesis
  proof (intro conjI)
    show "map_option updatedAt (map_of (disk (snd (saveWorkspace wid ws now st))) wid)
            = Some (updatedAt ws)"
      by (rule save(1))
    show "map_option updatedAt (map_of (workspaces (snd (saveWorkspace wid ws now st))) wid)
            = Some now"
      by (rule save(2))
    show "map_option updatedAt (map_of (disk (snd (createWorkspace wid chs tc tu ts st))) wid)
            = Some tu"
      by (rule create(1))
    show "map_option updatedAt
            (map_of (workspaces (snd (createWorkspace wid chs tc tu ts st))) wid) = Some ts"
      by (rule create(2))
    show "fst (loadWorkspace wid st) = Some ws
            \<and> addContract wid a chain cd ta ts st = (Inr (), st1) \<longrightarrow>
          map_option updatedAt (map_of (disk st1) wid) = Some (updatedAt ws)
            \<and> map_option updatedAt (map_of (workspaces st1) wid) = Some ts"
      using addC by (rule impI)
    show "fst (loadWorkspace wid st) = Some ws
            \<and> addVulnerabilities wid a chain vs ts st = (Inr (), st2) \<longrightarrow>
          map_option updatedAt (map_of (disk st2) wid) = Some (updatedAt ws)
            \<and> map_option updatedAt (map_of (workspaces st2) wid) = Some ts"
      using addV by (rule impI)
    show "fst (loadWorkspace wid st) = Some ws
            \<and> addReport wid a chain rep ts st = (Inr (), st3) \<longrightarrow>
          map_option updatedAt (map_of (disk st3) wid) = Some (updatedAt ws)
            \<and> map_option updatedAt (map_of (workspaces st3) wid) = Some ts"
      using addR by (rule impI)
  qed
qed

theorem persisted_updatedAt_is_previous_witness:
  "fst (loadWorkspace ''w1'' afterCreate)
     = Some ((freshWorkspace ''w1'' 1 2 new_manager)\<lparr>updatedAt := 3\<rparr>)
   \<and> fst (addContract ''w1'' ''0xAA'' ''bnb'' [] 4 5 afterCreate) = Inr ()
   \<and> map_option updatedAt
        (map_of (disk (snd (addContract ''w1'' ''0xAA'' ''bnb'' [] 4 5 afterCreate))) ''w1'')
       = Some 3
   \<and> map_option updatedAt
        (map_of (workspaces (snd (addContract ''w1'' ''0xAA'' ''bnb'' [] 4 5 afterCreate))) ''w1'')
       = Some 5
   \<and> fst (addVulnerabilities ''w1'' ''0xAA'' ''bnb'' [''v1''] 6 afterCreate) = Inr ()
   \<and> map_option updatedAt
        (map_of (disk (snd (addVulnerabilities ''w1'' ''0xAA'' ''bnb'' [''v1''] 6 afterCreate)))
           ''w1'')
       = Some 3
   \<and> fst (addReport ''w1'' ''0xAA'' ''bnb'' ''# Report'' 7 afterCreate) = Inr ()
   \<and> map_option updatedAt
        (map_of (disk (snd (addReport ''w1'' ''0xAA'' ''bnb'' ''# Report'' 7 afterCreate)))
           ''w1'')
       = Some 3"
proof -
  let ?W1 = "(freshWorkspace ''w1'' 1 2 (new_manager :: string manager))\<lparr>updatedAt := 3\<rparr>"
  let ?c = "addContract ''w1'' ''0xAA'' ''bnb'' [] 4 5 afterCreate"
  let ?v = "addVulnerabilities ''w1'' ''0xAA'' ''bnb'' [''v1''] 6 afterCreate"
  let ?r = "addReport ''w1'' ''0xAA'' ''bnb'' ''# Report'' 7 afterCreate"
  have h: "fst (loadWorkspace ''w1'' afterCreate) = Some ?W1"
    by (simp add: store_defs Let_def)
  have u: "updatedAt ?W1 = 3" by simp
  have c: "fst ?c = Inr ()" by (simp add: store_defs Let_def)
  have v: "fst ?v = Inr ()" by (simp add: store_defs Let_def)
  have r: "fst ?r = Inr ()" by (simp add: store_defs Let_def)
  from c have c': "?c = (Inr (), snd ?c)" by (simp add: prod_eq_iff)
  from v have v': "?v = (Inr (), snd ?v)" by (simp add: prod_eq_iff)
  from r have r': "?r = (Inr (), snd ?r)" by (simp add: prod_eq_iff)
  note inst = persisted_updatedAt_is_previous
    [where wid = "''w1''" and st = afterCreate and ws = ?W1 and a = "''0xAA''"
       and chain = "''bnb''"]
  have dc: "map_option updatedAt (map_of (disk (snd ?c)) ''w1'') = Some (updatedAt ?W1)
            \<and> map_option updatedAt (map_of (workspaces (snd ?c)) ''w1'') = Some 5"
    using inst [where cd = "[]" and ta = 4 and ts = 5 and ?st1.0 = "snd ?c",
        THEN conjunct2, THEN conjunct2, THEN conjunct2, THEN conjunct2, THEN conjunct1]
      h c'
    by (rule mp [OF _ conjI])
  have dv: "map_option updatedAt (map_of (disk (snd ?v)) ''w1'') = Some (updatedAt ?W1)
            \<and> map_option updatedAt (map_of (workspaces (snd ?v)) ''w1'') = Some 6"
    using inst [where vs = "[''v1'']" and ts = 6 and ?st2.0 = "snd ?v",
        THEN conjunct2, THEN conjunct2, THEN conjunct2, THEN conjunct2, THEN conjunct2,
        THEN conjunct1]
      h v'
    by (rule mp [OF _ conjI])
  have dr: "map_option updatedAt (map_of (disk (snd ?r)) ''w1'') = Some (updatedAt ?W1)
            \<and> map_option updatedAt (map_of (workspaces (snd ?r)) ''w1'') = Some 7"
    using inst [where rep = "''# Report''" and ts = 7 and ?st3.0 = "snd ?r",
        THEN conjunct2, THEN conjunct2, THEN conjunct2, THEN conjunct2, THEN conjunct2,
        THEN conjunct2]
      h r'
    by (rule mp [OF _ conjI])
  from dc dv dr u h c v r show ?thesis
    by simp
qed

end
